theory Spec2Isabelle
  imports Complex_Main "HOL-Library.Sublist"
begin

unbundle bit_operations_syntax

section \<open>Python values, failures and the world outside the Visualizer\<close>

text \<open>
  The file \<^verbatim>\<open>FoodCode/visualizer.py\<close> is an adapter: every statement of it is a call
  to a collaborator (the display library \<^verbatim>\<open>cv2\<close>, \<^verbatim>\<open>screeninfo\<close>, \<^verbatim>\<open>time\<close>, the shape
  drawer, the streamer) or a test on a configuration field. The model keeps the calls in
  the order the source makes them, in a log, and keeps the state they act on: the image
  arrays (by object identity), the files written, the file names whose extension the
  library can encode and the paths that can be written, the monitors, the keys the user
  presses.

  An exception is a value: a method returns its outcome, the Visualizer object after the
  call and the world after the call, also when it raises. \<open>ArgumentError\<close> is the refusal
  of a call by the binding of the display library (a \<^verbatim>\<open>TypeError\<close> or a \<^verbatim>\<open>cv2.error\<close>,
  by the version of the binding); \<open>Cv2Error\<close> is a \<^verbatim>\<open>cv2.error\<close> raised inside a call.
\<close>

datatype py_error =
    IndexError | ZeroDivisionError | ValueError | ArgumentError | Cv2Error | OtherError string

datatype 'a outcome = Raise py_error | Return 'a

text \<open>
  A numpy array is an object: \<open>ref\<close> is its identity, an index into the list of live
  arrays; a new array is appended, so an identity at or beyond the length of the list is
  one that did not exist.
\<close>

type_synonym ref = nat

record monitor =
  screen_x :: int
  screen_y :: int

text \<open>The calls made to collaborators, with their arguments. Python floats are reals here.\<close>

datatype ('ann, 'lbl) call =
    ShapeDrawerInit bool bool
  | GetMonitors
  | NamedWindow string int
  | ResizeWindow string int int
  | MoveWindow string int int
  | CvtColor ref int
  | ShapeDrawerDraw ref 'ann "'lbl list"
  | Imshow string ref "int list"
  | Imwrite string ref
  | WaitKey int
  | StreamerGetType
  | StreamerFps
  | Sleep real

record ('px, 'ann, 'lbl) world =
  heap :: "'px list"
  files :: "string \<rightharpoonup> 'px"
  monitors :: "monitor list"
  key_presses :: "int list"
  encodable :: "string \<Rightarrow> bool"
  writable :: "string \<Rightarrow> bool"
  calls :: "('ann, 'lbl) call list"

definition record_call :: "('ann, 'lbl) call \<Rightarrow> ('px, 'ann, 'lbl) world \<Rightarrow> ('px, 'ann, 'lbl) world" where
  "record_call c w = w\<lparr>calls := calls w @ [c]\<rparr>"

subsection \<open>Constants of the display library\<close>

definition WINDOW_AUTOSIZE :: int where
  "WINDOW_AUTOSIZE = 1"

definition WINDOW_GUI_NORMAL :: int where
  "WINDOW_GUI_NORMAL = 16"

definition COLOR_RGB2BGR :: int where
  "COLOR_RGB2BGR = 4"

subsection \<open>The collaborators whose code is not in the repository\<close>

text \<open>
  \<^verbatim>\<open>cv2.cvtColor\<close> and \<^verbatim>\<open>ShapeDrawer.draw\<close> are parameters: each takes its arguments and
  the live arrays, and gives back what it returns or raises, and the arrays afterwards.
  The shape drawer object is the pair of flags it was constructed with.
\<close>

record shape_drawer =
  show_count :: bool
  is_one_label :: bool

record ('px, 'ann, 'lbl) libs =
  cvtColor :: "ref \<Rightarrow> int \<Rightarrow> 'px list \<Rightarrow> ref outcome \<times> 'px list"
  shape_draw :: "shape_drawer \<Rightarrow> ref \<Rightarrow> 'ann \<Rightarrow> 'lbl list \<Rightarrow> 'px list \<Rightarrow> ref outcome \<times> 'px list"

definition cv2_cvtColor ::
  "('px, 'ann, 'lbl) libs \<Rightarrow> ref \<Rightarrow> int \<Rightarrow> ('px, 'ann, 'lbl) world \<Rightarrow> ref outcome \<times> ('px, 'ann, 'lbl) world" where
  "cv2_cvtColor L src code w =
     (case cvtColor L src code (heap w) of
        (r, h) \<Rightarrow> (r, (record_call (CvtColor src code) w)\<lparr>heap := h\<rparr>))"

definition ShapeDrawer_draw ::
  "('px, 'ann, 'lbl) libs \<Rightarrow> shape_drawer \<Rightarrow> ref \<Rightarrow> 'ann \<Rightarrow> 'lbl list \<Rightarrow> ('px, 'ann, 'lbl) world
     \<Rightarrow> ref outcome \<times> ('px, 'ann, 'lbl) world" where
  "ShapeDrawer_draw L d img annotation labels w =
     (case shape_draw L d img annotation labels (heap w) of
        (r, h) \<Rightarrow> (r, (record_call (ShapeDrawerDraw img annotation labels) w)\<lparr>heap := h\<rparr>))"

text \<open>
  The window calls only appear in the log. \<^verbatim>\<open>cv2.imshow\<close> takes a window name and an
  image, and nothing more: a call with further positional arguments is refused by the
  binding, before anything is shown. \<^verbatim>\<open>cv2.imwrite\<close> raises when the extension of the
  file name names no encoder; it returns false, and writes nothing, when the path cannot
  be written; otherwise it replaces the content of the file by the image, as it is when
  the call is made, and returns true. \<^verbatim>\<open>waitKey\<close> gives the next key of the user, or
  \<open>-1\<close> when there is none. \<^verbatim>\<open>time.sleep\<close> refuses a negative duration with a
  \<^verbatim>\<open>ValueError\<close>.
\<close>

definition cv2_imshow ::
  "string \<Rightarrow> ref \<Rightarrow> int list \<Rightarrow> ('px, 'ann, 'lbl) world \<Rightarrow> unit outcome \<times> ('px, 'ann, 'lbl) world" where
  "cv2_imshow winname mat extra w =
     (if extra \<noteq> [] then (Raise ArgumentError, record_call (Imshow winname mat extra) w)
      else (Return (), record_call (Imshow winname mat extra) w))"

definition cv2_imwrite ::
  "string \<Rightarrow> ref \<Rightarrow> ('px, 'ann, 'lbl) world \<Rightarrow> bool outcome \<times> ('px, 'ann, 'lbl) world" where
  "cv2_imwrite filename img w =
     (let w1 = record_call (Imwrite filename img) w
      in if \<not> encodable w filename then (Raise Cv2Error, w1)
         else if \<not> writable w filename then (Return False, w1)
         else (Return True, w1\<lparr>files := (files w)(filename \<mapsto> heap w ! img)\<rparr>))"

definition cv2_waitKey :: "int \<Rightarrow> ('px, 'ann, 'lbl) world \<Rightarrow> int \<times> ('px, 'ann, 'lbl) world" where
  "cv2_waitKey d w =
     (case key_presses w of
        [] \<Rightarrow> (- 1, record_call (WaitKey d) w)
      | k # ks \<Rightarrow> (k, (record_call (WaitKey d) w)\<lparr>key_presses := ks\<rparr>))"

definition time_sleep :: "real \<Rightarrow> ('px, 'ann, 'lbl) world \<Rightarrow> unit outcome \<times> ('px, 'ann, 'lbl) world" where
  "time_sleep secs w =
     (if secs < 0 then (Raise ValueError, w) else (Return (), record_call (Sleep secs) w))"

text \<open>
  A streamer: the string form of what \<^verbatim>\<open>get_type()\<close> returns, and what \<^verbatim>\<open>fps()\<close>
  returns.
\<close>

record streamer =
  get_type :: string
  fps :: real

section \<open>The Visualizer\<close>

record visualizer =
  window_name :: string
  shape_drawer :: shape_drawer
  delay :: int
  no_show :: bool
  "output" :: "string option"
  capture_window :: "unit option"

record ('a, 'px, 'ann, 'lbl) result =
  outcome :: "'a outcome"
  self_after :: visualizer
  world_after :: "('px, 'ann, 'lbl) world"

text \<open>
  \<^verbatim>\<open>__init__\<close>, lines 76 to 111. The delay is the argument, and 1 when the argument is
  \<^verbatim>\<open>None\<close>. The first monitor is read with \<^verbatim>\<open>[0]\<close>, which raises on an empty list.
  The three window calls follow, under no condition.
\<close>

definition Visualizer_init ::
  "string option \<Rightarrow> bool \<Rightarrow> bool \<Rightarrow> bool \<Rightarrow> int option \<Rightarrow> string option
     \<Rightarrow> ('px, 'ann, 'lbl) world \<Rightarrow> visualizer outcome \<times> ('px, 'ann, 'lbl) world" where
  "Visualizer_init window_name' show_count' is_one_label' no_show' delay' output' w =
     (let self = \<lparr>window_name = (case window_name' of None \<Rightarrow> ''Window'' | Some n \<Rightarrow> n),
                  shape_drawer = \<lparr>show_count = show_count', is_one_label = is_one_label'\<rparr>,
                  delay = (case delay' of None \<Rightarrow> 1 | Some d \<Rightarrow> d),
                  no_show = no_show',
                  output = output',
                  capture_window = None\<rparr>;
          w1 = record_call (ShapeDrawerInit show_count' is_one_label') w;
          w2 = record_call GetMonitors w1
      in case monitors w2 of
           [] \<Rightarrow> (Raise IndexError, w2)
         | screen # _ \<Rightarrow>
             (let monitor_x = screen_x screen;
                  monitor_y = screen_y screen;
                  window_x = monitor_x + 1200;
                  window_y = monitor_y + 300;
                  w3 = record_call (NamedWindow (window_name self) WINDOW_GUI_NORMAL) w2;
                  w4 = record_call (ResizeWindow (window_name self) 960 720) w3;
                  w5 = record_call (MoveWindow (window_name self) window_x window_y) w4
              in (Return self, w5)))"

text \<open>
  \<^verbatim>\<open>draw\<close>, lines 114 to 132. The local name \<^verbatim>\<open>image\<close> is bound again to the result of
  the conversion; \<^verbatim>\<open>meta\<close> is not read. A failure of a collaborator is not caught.
\<close>

definition draw ::
  "('px, 'ann, 'lbl) libs \<Rightarrow> visualizer \<Rightarrow> ref \<Rightarrow> 'ann \<Rightarrow> 'meta option \<Rightarrow> ('px, 'ann, 'lbl) world
     \<Rightarrow> (ref, 'px, 'ann, 'lbl) result" where
  "draw L self img annotation meta w =
     (case cv2_cvtColor L img COLOR_RGB2BGR w of
        (Raise e, w1) \<Rightarrow> \<lparr>outcome = Raise e, self_after = self, world_after = w1\<rparr>
      | (Return image1, w1) \<Rightarrow>
          (case ShapeDrawer_draw L (shape_drawer self) image1 annotation [] w1 of
             (r, w2) \<Rightarrow> \<lparr>outcome = r, self_after = self, world_after = w2\<rparr>))"

text \<open>
  \<^verbatim>\<open>show\<close>, lines 134 to 144. Line 142 passes three arguments to \<^verbatim>\<open>cv2.imshow\<close>: the
  window name, the image and the two window flags joined by \<^verbatim>\<open>|\<close>. \<^verbatim>\<open>if self.output\<close> is
  Python's truth test: \<^verbatim>\<open>None\<close> and the empty string are false. What \<^verbatim>\<open>cv2.imwrite\<close>
  returns is dropped. Nothing is caught.
\<close>

definition show_image :: "visualizer \<Rightarrow> ref \<Rightarrow> ('px, 'ann, 'lbl) world \<Rightarrow> (unit, 'px, 'ann, 'lbl) result" where
  "show_image self img w =
     (if \<not> no_show self then
        (case cv2_imshow (window_name self) img [WINDOW_GUI_NORMAL OR WINDOW_AUTOSIZE] w of
           (Raise e, w1) \<Rightarrow> \<lparr>outcome = Raise e, self_after = self, world_after = w1\<rparr>
         | (Return u, w1) \<Rightarrow>
             (case output self of
                None \<Rightarrow> \<lparr>outcome = Return (), self_after = self, world_after = w1\<rparr>
              | Some path \<Rightarrow>
                  if path \<noteq> [] then
                    (case cv2_imwrite path img w1 of
                       (Raise e, w2) \<Rightarrow> \<lparr>outcome = Raise e, self_after = self, world_after = w2\<rparr>
                     | (Return written, w2) \<Rightarrow>
                         \<lparr>outcome = Return (), self_after = self, world_after = w2\<rparr>)
                  else \<lparr>outcome = Return (), self_after = self, world_after = w1\<rparr>))
      else \<lparr>outcome = Return (), self_after = self, world_after = w\<rparr>)"

text \<open>\<^verbatim>\<open>is_quit\<close>, lines 146 to 151.\<close>

definition is_quit :: "visualizer \<Rightarrow> ('px, 'ann, 'lbl) world \<Rightarrow> (bool, 'px, 'ann, 'lbl) result" where
  "is_quit self w =
     (if no_show self then \<lparr>outcome = Return False, self_after = self, world_after = w\<rparr>
      else case cv2_waitKey (delay self) w of
             (key, w1) \<Rightarrow>
               \<lparr>outcome = Return (of_char CHR ''q'' = key), self_after = self, world_after = w1\<rparr>)"

text \<open>
  \<^verbatim>\<open>video_delay\<close>, lines 153 to 165. Python's \<^verbatim>\<open>1 / 0\<close> and \<^verbatim>\<open>1 / 0.0\<close> raise
  \<^verbatim>\<open>ZeroDivisionError\<close>; in HOL \<open>1 / 0 = 0\<close>, so the test is written out.
\<close>

definition video_delay ::
  "visualizer \<Rightarrow> real \<Rightarrow> streamer \<Rightarrow> ('px, 'ann, 'lbl) world \<Rightarrow> (unit, 'px, 'ann, 'lbl) result" where
  "video_delay self elapsed_time s w =
     (if no_show self then \<lparr>outcome = Return (), self_after = self, world_after = w\<rparr>
      else
        (let w1 = record_call StreamerGetType w
         in if sublist ''VIDEO'' (get_type s) then
              (let w2 = record_call StreamerFps w1
               in if fps s = 0 then
                    \<lparr>outcome = Raise ZeroDivisionError, self_after = self, world_after = w2\<rparr>
                  else
                    (let orig_frame_time = 1 / fps s
                     in if elapsed_time < orig_frame_time then
                          (case time_sleep (orig_frame_time - elapsed_time) w2 of
                             (r, w3) \<Rightarrow> \<lparr>outcome = r, self_after = self, world_after = w3\<rparr>)
                        else \<lparr>outcome = Return (), self_after = self, world_after = w2\<rparr>))
            else \<lparr>outcome = Return (), self_after = self, world_after = w1\<rparr>))"

subsection \<open>What the log says\<close>

text \<open>The durations slept, and the colour conversions made (source array and code), in a log.\<close>

fun slept :: "('ann, 'lbl) call list \<Rightarrow> real list" where
  "slept [] = []"
| "slept (Sleep d # cs) = d # slept cs"
| "slept (c # cs) = slept cs"

fun conversions :: "('ann, 'lbl) call list \<Rightarrow> (ref \<times> int) list" where
  "conversions [] = []"
| "conversions (CvtColor src code # cs) = (src, code) # conversions cs"
| "conversions (c # cs) = conversions cs"

section \<open>The contract of \<^verbatim>\<open>draw\<close>, in the words of the specification\<close>

text \<open>
  Convert the channel order of the input image from RGB to BGR; then hand the converted
  image and the annotation to the shape drawer, with an empty list of labels; the result
  of the shape drawer is the result. A failure of the conversion is the result as well.
\<close>

definition draw_spec ::
  "('px, 'ann, 'lbl) libs \<Rightarrow> visualizer \<Rightarrow> ref \<Rightarrow> 'ann \<Rightarrow> ('px, 'ann, 'lbl) world
     \<Rightarrow> ref outcome \<times> ('px, 'ann, 'lbl) world" where
  "draw_spec L self img annotation w =
     (let converted = cv2_cvtColor L img COLOR_RGB2BGR w
      in case fst converted of
           Raise e \<Rightarrow> converted
         | Return bgr \<Rightarrow> ShapeDrawer_draw L (shape_drawer self) bgr annotation [] (snd converted))"

section \<open>What is assumed of the collaborators\<close>

text \<open>
  \<^verbatim>\<open>cv2.cvtColor\<close>, called without a destination, returns a new array and leaves the
  arrays that exist as they are, also when it raises.
\<close>

definition cvtColor_returns_new :: "('px, 'ann, 'lbl) libs \<Rightarrow> bool" where
  "cvtColor_returns_new L \<longleftrightarrow>
     (\<forall>src code h. case cvtColor L src code h of
        (Return dst, h') \<Rightarrow> length h \<le> dst \<and> dst < length h' \<and> take (length h) h' = h
      | (Raise e, h') \<Rightarrow> take (length h) h' = h)"

text \<open>
  The shape drawer writes to the array it is given and to arrays it creates, to no other;
  what it returns is the array it was given or one it created.
\<close>

definition drawer_confined :: "('px, 'ann, 'lbl) libs \<Rightarrow> bool" where
  "drawer_confined L \<longleftrightarrow>
     (\<forall>d im ann ls h. case shape_draw L d im ann ls h of
        (r, h') \<Rightarrow>
          length h \<le> length h' \<and> (\<forall>a < length h. a \<noteq> im \<longrightarrow> h' ! a = h ! a)
          \<and> (case r of Return im' \<Rightarrow> im' = im \<or> length h \<le> im' | Raise e \<Rightarrow> True))"

section \<open>Concrete inputs\<close>

text \<open>
  A world with one monitor at the origin, one array, one file that can be written, an
  encoder for the names that end in \<^verbatim>\<open>.png\<close>, and a user who presses \<^verbatim>\<open>q\<close>; pixel buffers are written as strings of channel letters. The conversion of the
  example reverses the channels into a new array; the drawer of the example draws in
  place and returns the array it was given.
\<close>

definition demo_world :: "(string, unit, unit) world" where
  "demo_world = \<lparr>heap = [''RGB''], files = [''out.png'' \<mapsto> ''old''],
                  monitors = [\<lparr>screen_x = 0, screen_y = 0\<rparr>], key_presses = [113],
                  encodable = suffix ''.png'', writable = (\<lambda>path. path = ''out.png''),
                  calls = []\<rparr>"

definition demo_libs :: "(string, unit, unit) libs" where
  "demo_libs = \<lparr>cvtColor = (\<lambda>src code h. (Return (length h), h @ [rev (h ! src)])),
                 shape_draw = (\<lambda>d im ann ls h. (Return im, h[im := h ! im @ ''+'']))\<rparr>"

definition demo_visualizer :: "bool \<Rightarrow> visualizer" where
  "demo_visualizer hidden =
     \<lparr>window_name = ''Window'', shape_drawer = \<lparr>show_count = False, is_one_label = False\<rparr>,
      delay = 1, no_show = hidden, output = Some ''out.png'', capture_window = None\<rparr>"

definition video_30 :: streamer where
  "video_30 = \<lparr>get_type = ''MediaType.VIDEO'', fps = 30\<rparr>"

definition video_0 :: streamer where
  "video_0 = \<lparr>get_type = ''MediaType.VIDEO'', fps = 0\<rparr>"

definition camera_30 :: streamer where
  "camera_30 = \<lparr>get_type = ''MediaType.CAMERA'', fps = 30\<rparr>"

section \<open>Facts about logs\<close>

lemma slept_append: "slept (cs @ ds) = slept cs @ slept ds"
  by (induction cs rule: slept.induct) simp_all

lemma conversions_append: "conversions (cs @ ds) = conversions cs @ conversions ds"
  by (induction cs rule: conversions.induct) simp_all

lemma sleep_positive:
  "0 \<le> secs \<Longrightarrow> time_sleep secs w = (Return (), record_call (Sleep secs) w)"
  by (simp add: time_sleep_def)

lemma calls_record_call: "calls (record_call c w) = calls w @ [c]"
  by (simp add: record_call_def)

text \<open>
  The display library on its own: a call of \<^verbatim>\<open>imshow\<close> with a window name and an image
  returns; \<^verbatim>\<open>imwrite\<close> on a name it can encode and a path it can write stores the image
  and leaves the other files; on a path it cannot write it returns false and stores
  nothing.
\<close>

lemma imshow_two_arguments:
  "cv2_imshow winname mat [] w = (Return (), record_call (Imshow winname mat []) w)"
  by (simp add: cv2_imshow_def)

lemma imshow_more_arguments:
  "extra \<noteq> [] \<Longrightarrow> fst (cv2_imshow winname mat extra w) = Raise ArgumentError"
  by (simp add: cv2_imshow_def)

lemma imwrite_stores:
  "encodable w filename \<Longrightarrow> writable w filename \<Longrightarrow>
     fst (cv2_imwrite filename img w) = Return True
     \<and> files (snd (cv2_imwrite filename img w)) = (files w)(filename \<mapsto> heap w ! img)"
  by (simp add: cv2_imwrite_def Let_def record_call_def)

lemma imwrite_unwritable:
  "encodable w filename \<Longrightarrow> \<not> writable w filename \<Longrightarrow>
     fst (cv2_imwrite filename img w) = Return False
     \<and> files (snd (cv2_imwrite filename img w)) = files w"
  by (simp add: cv2_imwrite_def Let_def record_call_def)

text \<open>
  Whenever the display is not suppressed, \<^verbatim>\<open>show\<close> raises at the call of \<^verbatim>\<open>imshow\<close>,
  and the files are as they were: the write of line 144 is not reached.
\<close>

lemma show_image_raises:
  "\<not> no_show self \<Longrightarrow>
     outcome (show_image self img w) = Raise ArgumentError
     \<and> files (world_after (show_image self img w)) = files w
     \<and> calls (world_after (show_image self img w)) = calls w @ [Imshow (window_name self) img [17]]"
  by (simp add: show_image_def cv2_imshow_def record_call_def
      WINDOW_GUI_NORMAL_def WINDOW_AUTOSIZE_def)

text \<open>The Visualizer of the examples is one the constructor builds.\<close>

lemma demo_visualizer_constructed:
  "fst (Visualizer_init None False False hidden None (Some ''out.png'') demo_world)
     = Return (demo_visualizer hidden)"
  by (simp add: Visualizer_init_def Let_def record_call_def demo_world_def demo_visualizer_def)

section \<open>Display suppressed\<close>

text \<open>
  C3. With \<^verbatim>\<open>no_show\<close> set, \<^verbatim>\<open>show\<close>, \<^verbatim>\<open>is_quit\<close> and \<^verbatim>\<open>video_delay\<close> return at once and
  leave the world as it was: nothing is rendered, no file is written, no key is polled,
  the streamer is not called, nothing sleeps; \<^verbatim>\<open>is_quit\<close> returns false. This holds for
  every image, streamer and elapsed time.
\<close>

theorem no_show_is_noop:
  assumes "no_show self"
  shows "show_image self img w = \<lparr>outcome = Return (), self_after = self, world_after = w\<rparr>
       \<and> is_quit self w = \<lparr>outcome = Return False, self_after = self, world_after = w\<rparr>
       \<and> video_delay self elapsed_time s w = \<lparr>outcome = Return (), self_after = self, world_after = w\<rparr>"
  using assms by (simp add: show_image_def is_quit_def video_delay_def)

theorem no_show_is_noop_witness:
  "no_show (demo_visualizer True)
   \<and> show_image (demo_visualizer True) 0 demo_world
       = \<lparr>outcome = Return (), self_after = demo_visualizer True, world_after = demo_world\<rparr>
   \<and> is_quit (demo_visualizer True) demo_world
       = \<lparr>outcome = Return False, self_after = demo_visualizer True, world_after = demo_world\<rparr>
   \<and> video_delay (demo_visualizer True) 0 video_30 demo_world
       = \<lparr>outcome = Return (), self_after = demo_visualizer True, world_after = demo_world\<rparr>"
proof -
  have hidden: "no_show (demo_visualizer True)"
    by (simp add: demo_visualizer_def)
  show ?thesis
    using hidden no_show_is_noop [OF hidden, of 0 demo_world 0 video_30]
    by simp
qed

section \<open>Pacing a video\<close>

text \<open>
  C1. With the display not suppressed: when the string form of the streamer's type
  contains \<^verbatim>\<open>VIDEO\<close> (and the frame rate is not zero, so that the division has a value),
  \<^verbatim>\<open>video_delay\<close> returns normally and sleeps once, for \<open>1 / fps - elapsed_time\<close>,
  exactly when \<open>elapsed_time < 1 / fps\<close>, and does not sleep otherwise; when the type
  does not contain \<^verbatim>\<open>VIDEO\<close> it returns without sleeping, whatever the elapsed time.
\<close>

theorem video_delay_paces_video:
  assumes "\<not> no_show self"
  shows "(sublist ''VIDEO'' (get_type s) \<longrightarrow> fps s \<noteq> 0 \<longrightarrow>
            outcome (video_delay self elapsed_time s w) = Return ()
          \<and> slept (calls (world_after (video_delay self elapsed_time s w))) =
              slept (calls w) @
                (if elapsed_time < 1 / fps s then [1 / fps s - elapsed_time] else []))
       \<and> (\<not> sublist ''VIDEO'' (get_type s) \<longrightarrow>
            outcome (video_delay self elapsed_time s w) = Return ()
          \<and> slept (calls (world_after (video_delay self elapsed_time s w))) = slept (calls w))"
  using assms
  by (simp add: video_delay_def Let_def sleep_positive calls_record_call slept_append)

theorem video_delay_paces_video_witness:
  "\<not> no_show (demo_visualizer False)
   \<and> sublist ''VIDEO'' (get_type video_30) \<and> fps video_30 \<noteq> 0
   \<and> outcome (video_delay (demo_visualizer False) (1 / 100) video_30 demo_world) = Return ()
   \<and> slept (calls (world_after (video_delay (demo_visualizer False) (1 / 100) video_30 demo_world)))
        = [7 / 300]
   \<and> slept (calls (world_after (video_delay (demo_visualizer False) 1 video_30 demo_world))) = []
   \<and> \<not> sublist ''VIDEO'' (get_type camera_30)
   \<and> slept (calls (world_after (video_delay (demo_visualizer False) (1 / 100) camera_30 demo_world)))
        = []"
proof -
  have shown: "\<not> no_show (demo_visualizer False)"
    by (simp add: demo_visualizer_def)
  have video: "sublist ''VIDEO'' (get_type video_30)" and rate: "fps video_30 \<noteq> 0"
    by (simp_all add: video_30_def sublist_Cons_right)
  have camera: "\<not> sublist ''VIDEO'' (get_type camera_30)"
    by (simp add: camera_30_def sublist_Cons_right)
  have quiet: "slept (calls demo_world) = []"
    by (simp add: demo_world_def)
  have r30: "fps video_30 = 30"
    by (simp add: video_30_def)
  show ?thesis
    using shown video rate camera quiet r30
      video_delay_paces_video [OF shown, of video_30 "1 / 100" demo_world]
      video_delay_paces_video [OF shown, of video_30 1 demo_world]
      video_delay_paces_video [OF shown, of camera_30 "1 / 100" demo_world]
    by simp
qed

text \<open>
  C9. With the display not suppressed, a video streamer whose frame rate is zero makes
  \<^verbatim>\<open>video_delay\<close> raise \<^verbatim>\<open>ZeroDivisionError\<close> to its caller, and nothing sleeps.
\<close>

theorem video_delay_zero_fps:
  assumes "\<not> no_show self" and "sublist ''VIDEO'' (get_type s)" and "fps s = 0"
  shows "outcome (video_delay self elapsed_time s w) = Raise ZeroDivisionError
       \<and> slept (calls (world_after (video_delay self elapsed_time s w))) = slept (calls w)"
  using assms by (simp add: video_delay_def Let_def calls_record_call slept_append)

theorem video_delay_zero_fps_witness:
  "\<not> no_show (demo_visualizer False) \<and> sublist ''VIDEO'' (get_type video_0) \<and> fps video_0 = 0
   \<and> outcome (video_delay (demo_visualizer False) (1 / 100) video_0 demo_world) = Raise ZeroDivisionError
   \<and> slept (calls (world_after (video_delay (demo_visualizer False) (1 / 100) video_0 demo_world))) = []"
proof -
  have shown: "\<not> no_show (demo_visualizer False)"
    by (simp add: demo_visualizer_def)
  have video: "sublist ''VIDEO'' (get_type video_0)" and rate: "fps video_0 = 0"
    by (simp_all add: video_0_def sublist_Cons_right)
  have quiet: "slept (calls demo_world) = []"
    by (simp add: demo_world_def)
  show ?thesis
    using shown video rate quiet
      video_delay_zero_fps [OF shown video rate, of "1 / 100" demo_world]
    by simp
qed

section \<open>Polling for the quit key\<close>

text \<open>
  C4. With the display not suppressed, \<^verbatim>\<open>is_quit\<close> polls the display once, with the
  stored delay, and returns true if and only if the key code the poll returns is the
  character code of \<^verbatim>\<open>q\<close>, which is 113; when no key is pressed (the poll returns
  \<open>-1\<close>) it returns false.
\<close>

theorem is_quit_iff_q:
  assumes "\<not> no_show self"
  shows "outcome (is_quit self w) =
           Return ((case key_presses w of [] \<Rightarrow> - 1 | k # ks \<Rightarrow> k) = of_char CHR ''q'')
       \<and> of_char CHR ''q'' = (113 :: int)
       \<and> (key_presses w = [] \<longrightarrow> outcome (is_quit self w) = Return False)
       \<and> calls (world_after (is_quit self w)) = calls w @ [WaitKey (delay self)]
       \<and> key_presses (world_after (is_quit self w)) = tl (key_presses w)"
  using assms
  by (auto simp add: is_quit_def cv2_waitKey_def calls_record_call record_call_def
      split: list.splits)

theorem is_quit_iff_q_witness:
  "\<not> no_show (demo_visualizer False)
   \<and> outcome (is_quit (demo_visualizer False) demo_world) = Return True
   \<and> outcome (is_quit (demo_visualizer False) (demo_world\<lparr>key_presses := [81]\<rparr>)) = Return False
   \<and> outcome (is_quit (demo_visualizer False) (demo_world\<lparr>key_presses := []\<rparr>)) = Return False
   \<and> calls (world_after (is_quit (demo_visualizer False) demo_world)) = [WaitKey 1]"
proof -
  have shown: "\<not> no_show (demo_visualizer False)"
    by (simp add: demo_visualizer_def)
  have keys: "key_presses demo_world = [113]" and quiet: "calls demo_world = []"
    by (simp_all add: demo_world_def)
  have wait: "delay (demo_visualizer False) = 1"
    by (simp add: demo_visualizer_def)
  show ?thesis
    using shown keys quiet wait
      is_quit_iff_q [OF shown, of demo_world]
      is_quit_iff_q [OF shown, of "demo_world\<lparr>key_presses := [81]\<rparr>"]
      is_quit_iff_q [OF shown, of "demo_world\<lparr>key_presses := []\<rparr>"]
    by simp
qed

section \<open>Showing and saving a frame\<close>

text \<open>
  C7. The claim is that \<^verbatim>\<open>show\<close>, with an output path configured and the display not
  suppressed, leaves the image passed to it in the file at the path. Line 142 calls
  \<^verbatim>\<open>cv2.imshow\<close> with three arguments, which the binding refuses, so \<^verbatim>\<open>show\<close> raises and
  the write on line 144 is not reached: with the output path \<^verbatim>\<open>out.png\<close>, a path that
  can be written and encoded, the call raises, \<^verbatim>\<open>imwrite\<close> is not called and the file
  holds what it held before, not the image.
\<close>

theorem show_raises_before_write:
  "show_image (demo_visualizer False) 0 demo_world =
     \<lparr>outcome = Raise ArgumentError, self_after = demo_visualizer False,
      world_after = demo_world\<lparr>calls := [Imshow ''Window'' 0 [17]]\<rparr>\<rparr>
   \<and> output (demo_visualizer False) = Some ''out.png''
   \<and> encodable demo_world ''out.png'' \<and> writable demo_world ''out.png''
   \<and> heap demo_world ! 0 = ''RGB''
   \<and> files (world_after (show_image (demo_visualizer False) 0 demo_world)) ''out.png'' = Some ''old''"
  by (simp add: show_image_def cv2_imshow_def record_call_def demo_visualizer_def demo_world_def
      WINDOW_GUI_NORMAL_def WINDOW_AUTOSIZE_def suffix_to_prefix)

section \<open>Construction\<close>

text \<open>
  C8. Where a monitor exists, the constructor returns a Visualizer whose stored delay is
  1 when no delay is supplied and the supplied value otherwise; constructing with the
  delay 1 and constructing with no delay give the same object and the same world.
\<close>

theorem init_delay_default:
  assumes "monitors w \<noteq> []"
  shows "(\<exists>self w'. Visualizer_init window_name' show_count' is_one_label' no_show' delay' output' w
                     = (Return self, w')
                   \<and> delay self = (case delay' of None \<Rightarrow> 1 | Some d \<Rightarrow> d))
       \<and> Visualizer_init window_name' show_count' is_one_label' no_show' None output' w
           = Visualizer_init window_name' show_count' is_one_label' no_show' (Some 1) output' w"
  using assms
  by (simp add: Visualizer_init_def Let_def record_call_def split: list.splits)

theorem init_delay_default_witness:
  "monitors demo_world \<noteq> []
   \<and> (\<exists>self w'. Visualizer_init None False False False (Some 40) None demo_world = (Return self, w')
                 \<and> delay self = 40)
   \<and> Visualizer_init None False False False None None demo_world
       = Visualizer_init None False False False (Some 1) None demo_world"
proof -
  have seen: "monitors demo_world \<noteq> []"
    by (simp add: demo_world_def)
  show ?thesis
    using seen init_delay_default [OF seen, of None False False False "Some 40" None]
    by simp
qed

text \<open>
  C2. The claim is that construction with \<^verbatim>\<open>no_show=True\<close> creates, resizes and moves
  no window. The constructor stores the flag and then makes the three window calls under
  no test of it: constructed with \<^verbatim>\<open>no_show=True\<close> on a monitor at the origin, it
  creates the window \<^verbatim>\<open>Window\<close>, resizes it to 960 by 720 and moves it to (1200, 300).
\<close>

theorem init_no_show_creates_window:
  "Visualizer_init None False False True None None demo_world =
     (Return \<lparr>window_name = ''Window'', shape_drawer = \<lparr>show_count = False, is_one_label = False\<rparr>,
              delay = 1, no_show = True, output = None, capture_window = None\<rparr>,
      demo_world\<lparr>calls := [ShapeDrawerInit False False, GetMonitors, NamedWindow ''Window'' 16,
                            ResizeWindow ''Window'' 960 720, MoveWindow ''Window'' 1200 300]\<rparr>)"
  by (simp add: Visualizer_init_def Let_def record_call_def demo_world_def WINDOW_GUI_NORMAL_def)

section \<open>Drawing\<close>

text \<open>
  C5. For every image and annotation, \<^verbatim>\<open>draw\<close> is the composition the specification
  describes: the conversion from RGB to BGR, then the shape drawer on the converted image
  and the annotation with an empty list of labels, whose result is returned; and the
  Visualizer object is left as it was.
\<close>

theorem draw_is_convert_then_delegate:
  "(outcome (draw L self img annotation meta w), world_after (draw L self img annotation meta w))
     = draw_spec L self img annotation w
   \<and> self_after (draw L self img annotation meta w) = self"
proof (cases "cv2_cvtColor L img COLOR_RGB2BGR w")
  case (Pair r w1)
  show ?thesis
  proof (cases r)
    case (Raise e)
    with Pair show ?thesis
      by (simp add: draw_def draw_spec_def)
  next
    case (Return bgr)
    with Pair show ?thesis
      by (cases "ShapeDrawer_draw L (shape_drawer self) bgr annotation [] w1")
         (simp add: draw_def draw_spec_def)
  qed
qed

text \<open>
  C10. The result of \<^verbatim>\<open>draw\<close> does not depend on \<^verbatim>\<open>meta\<close>: any two values of it,
  \<^verbatim>\<open>None\<close> included, give the same outcome and the same world.
\<close>

theorem draw_ignores_meta:
  "draw L self img annotation meta w = draw L self img annotation meta' w
   \<and> draw L self img annotation meta w = draw L self img annotation (None :: 'c option) w"
  by (simp add: draw_def)

lemma cvtColor_frame:
  assumes "cvtColor_returns_new L" and "cv2_cvtColor L src code w = (r, w1)"
  shows "calls w1 = calls w @ [CvtColor src code]"
    and "take (length (heap w)) (heap w1) = heap w"
    and "r = Return dst \<Longrightarrow> length (heap w) \<le> dst"
proof -
  obtain r' h' where lib: "cvtColor L src code (heap w) = (r', h')"
    by (cases "cvtColor L src code (heap w)")
  with assms(2) have r: "r = r'" and w1: "w1 = (record_call (CvtColor src code) w)\<lparr>heap := h'\<rparr>"
    by (simp_all add: cv2_cvtColor_def)
  from w1 show "calls w1 = calls w @ [CvtColor src code]"
    by (simp add: record_call_def)
  note inst = assms(1) [unfolded cvtColor_returns_new_def, THEN spec [where x = src],
      THEN spec [where x = code], THEN spec [where x = "heap w"]]
  with lib have new:
    "case r' of Return dst \<Rightarrow> length (heap w) \<le> dst \<and> dst < length h' \<and> take (length (heap w)) h' = heap w
              | Raise e \<Rightarrow> take (length (heap w)) h' = heap w"
    by (simp split: outcome.splits)
  from new w1 show "take (length (heap w)) (heap w1) = heap w"
    by (cases r') simp_all
  from new r show "r = Return dst \<Longrightarrow> length (heap w) \<le> dst"
    by (cases r') simp_all
qed

lemma ShapeDrawer_draw_frame:
  assumes "drawer_confined L" and "ShapeDrawer_draw L d im ann ls w1 = (r, w2)"
  shows "calls w2 = calls w1 @ [ShapeDrawerDraw im ann ls]"
    and "length (heap w1) \<le> length (heap w2)"
    and "a < length (heap w1) \<Longrightarrow> a \<noteq> im \<Longrightarrow> heap w2 ! a = heap w1 ! a"
    and "r = Return im' \<Longrightarrow> im' = im \<or> length (heap w1) \<le> im'"
proof -
  obtain r' h' where lib: "shape_draw L d im ann ls (heap w1) = (r', h')"
    by (cases "shape_draw L d im ann ls (heap w1)")
  with assms(2) have r: "r = r'" and w2: "w2 = (record_call (ShapeDrawerDraw im ann ls) w1)\<lparr>heap := h'\<rparr>"
    by (simp_all add: ShapeDrawer_draw_def)
  from w2 show "calls w2 = calls w1 @ [ShapeDrawerDraw im ann ls]"
    by (simp add: record_call_def)
  note inst = assms(1) [unfolded drawer_confined_def, THEN spec [where x = d],
      THEN spec [where x = im], THEN spec [where x = ann], THEN spec [where x = ls],
      THEN spec [where x = "heap w1"]]
  with lib have conf:
    "length (heap w1) \<le> length h' \<and> (\<forall>a < length (heap w1). a \<noteq> im \<longrightarrow> h' ! a = heap w1 ! a)
     \<and> (case r' of Return im' \<Rightarrow> im' = im \<or> length (heap w1) \<le> im' | Raise e \<Rightarrow> True)"
    by simp
  from conf w2 show "length (heap w1) \<le> length (heap w2)"
    by simp
  from conf w2 show "a < length (heap w1) \<Longrightarrow> a \<noteq> im \<Longrightarrow> heap w2 ! a = heap w1 ! a"
    by simp
  from conf r show "r = Return im' \<Longrightarrow> im' = im \<or> length (heap w1) \<le> im'"
    by simp
qed

lemma take_keeps:
  assumes "take n ys = xs" and "length xs = n" and "i < n"
  shows "n \<le> length ys" and "ys ! i = xs ! i"
proof -
  from assms(1,2) have "min (length ys) n = n"
    by (metis length_take)
  then show "n \<le> length ys"
    by simp
  from assms(1,3) show "ys ! i = xs ! i"
    by (metis nth_take)
qed

text \<open>
  C6. Where the conversion returns a new array and the shape drawer keeps to the array it
  is given, \<^verbatim>\<open>draw\<close> on a live image converts exactly once (the caller's image, from
  RGB to BGR), leaves the buffer of the caller's image as it was, and does not return the
  caller's image object.
\<close>

theorem draw_leaves_input_alone:
  assumes "cvtColor_returns_new L" and "drawer_confined L" and "img < length (heap w)"
  shows "conversions (calls (world_after (draw L self img annotation meta w)))
           = conversions (calls w) @ [(img, COLOR_RGB2BGR)]
       \<and> heap (world_after (draw L self img annotation meta w)) ! img = heap w ! img
       \<and> outcome (draw L self img annotation meta w) \<noteq> Return img"
proof (cases "cv2_cvtColor L img COLOR_RGB2BGR w")
  case (Pair r w1)
  note cvt = cvtColor_frame [OF assms(1) Pair]
  have kept: "length (heap w) \<le> length (heap w1)" "heap w1 ! img = heap w ! img"
    using take_keeps [OF cvt(2) refl assms(3)] by simp_all
  show ?thesis
  proof (cases r)
    case (Raise e)
    with Pair cvt(1) kept show ?thesis
      by (simp add: draw_def conversions_append)
  next
    case (Return bgr)
    with cvt(3) have fresh: "length (heap w) \<le> bgr"
      by simp
    obtain r2 w2 where drawn: "ShapeDrawer_draw L (shape_drawer self) bgr annotation [] w1 = (r2, w2)"
      by (cases "ShapeDrawer_draw L (shape_drawer self) bgr annotation [] w1")
    note sd = ShapeDrawer_draw_frame [OF assms(2) drawn]
    from Pair Return drawn have res:
      "draw L self img annotation meta w = \<lparr>outcome = r2, self_after = self, world_after = w2\<rparr>"
      by (simp add: draw_def)
    have "conversions (calls w2) = conversions (calls w) @ [(img, COLOR_RGB2BGR)]"
      using sd(1) cvt(1) by (simp add: conversions_append)
    moreover have "heap w2 ! img = heap w ! img"
      using sd(3) [of img] kept fresh assms(3) by simp
    moreover have "r2 \<noteq> Return img"
    proof
      assume "r2 = Return img"
      from sd(4) [OF this] fresh kept(1) assms(3) show False
        by auto
    qed
    ultimately show ?thesis
      using res by simp
  qed
qed

theorem draw_leaves_input_alone_witness:
  "cvtColor_returns_new demo_libs \<and> drawer_confined demo_libs \<and> 0 < length (heap demo_world)
   \<and> conversions (calls (world_after (draw demo_libs (demo_visualizer False) 0 () (None :: unit option) demo_world))) = [(0, 4)]
   \<and> heap (world_after (draw demo_libs (demo_visualizer False) 0 () (None :: unit option) demo_world)) ! 0 = ''RGB''
   \<and> outcome (draw demo_libs (demo_visualizer False) 0 () (None :: unit option) demo_world) \<noteq> Return 0"
proof -
  have new: "cvtColor_returns_new demo_libs"
    by (simp add: cvtColor_returns_new_def demo_libs_def)
  have conf: "drawer_confined demo_libs"
    by (simp add: drawer_confined_def demo_libs_def)
  have live: "0 < length (heap demo_world)"
    and arrays: "heap demo_world = [''RGB'']" and quiet: "calls demo_world = []"
    by (simp_all add: demo_world_def)
  show ?thesis
    using new conf live arrays quiet COLOR_RGB2BGR_def
      draw_leaves_input_alone [OF new conf live, of "demo_visualizer False" "()" "None :: unit option"]
    by simp
qed

end
